theory Spec2Isabelle
  imports Complex_Main "HOL-Library.Monad_Syntax"
begin

section \<open>Data model\<close>

text \<open>
  \<^verbatim>\<open>EInputMode\<close> is the device class of an input event. The four enumerators are the
  ones the source uses (\<^verbatim>\<open>EInputMode::Mouse\<close>, \<^verbatim>\<open>Keyboard\<close>, \<^verbatim>\<open>Gamepad\<close>,
  \<^verbatim>\<open>Unknown\<close>). The enum itself is declared in \<^verbatim>\<open>StevesHelperCommon.h\<close>, which is
  not among the source files, so the numbering of the enumerators is not known. It
  matters in one place only: \<^verbatim>\<open>TArray::SetNum\<close> value-initialises the elements it
  adds (the engine fills new elements of an enum type with zero bytes), which for an
  enum is the enumerator numbered 0. That value is the parameter \<open>Zero\<close> of every
  operation below that can grow an array.
\<close>

datatype EInputMode = Mouse | Keyboard | Gamepad | Unknown

text \<open>
  \<^verbatim>\<open>FKey\<close> is an engine type. The detector asks a key three things: its name
  (\<^verbatim>\<open>operator!=\<close> against the \<^verbatim>\<open>EKeys\<close> constants compares names),
  \<^verbatim>\<open>IsGamepadKey()\<close> and \<^verbatim>\<open>IsMouseButton()\<close>. A key is modelled by these three
  answers.
\<close>

record FKey =
  KeyName :: string
  IsGamepadKey :: bool
  IsMouseButton :: bool

definition EKeys_Gamepad_LeftStick_Up :: FKey where
  "EKeys_Gamepad_LeftStick_Up =
     \<lparr>KeyName = ''Gamepad_LeftStick_Up'', IsGamepadKey = True, IsMouseButton = False\<rparr>"

definition EKeys_Gamepad_LeftStick_Down :: FKey where
  "EKeys_Gamepad_LeftStick_Down =
     \<lparr>KeyName = ''Gamepad_LeftStick_Down'', IsGamepadKey = True, IsMouseButton = False\<rparr>"

definition EKeys_Gamepad_LeftStick_Left :: FKey where
  "EKeys_Gamepad_LeftStick_Left =
     \<lparr>KeyName = ''Gamepad_LeftStick_Left'', IsGamepadKey = True, IsMouseButton = False\<rparr>"

definition EKeys_Gamepad_LeftStick_Right :: FKey where
  "EKeys_Gamepad_LeftStick_Right =
     \<lparr>KeyName = ''Gamepad_LeftStick_Right'', IsGamepadKey = True, IsMouseButton = False\<rparr>"

definition EKeys_Gamepad_RightStick_Up :: FKey where
  "EKeys_Gamepad_RightStick_Up =
     \<lparr>KeyName = ''Gamepad_RightStick_Up'', IsGamepadKey = True, IsMouseButton = False\<rparr>"

definition EKeys_Gamepad_RightStick_Down :: FKey where
  "EKeys_Gamepad_RightStick_Down =
     \<lparr>KeyName = ''Gamepad_RightStick_Down'', IsGamepadKey = True, IsMouseButton = False\<rparr>"

definition EKeys_Gamepad_RightStick_Left :: FKey where
  "EKeys_Gamepad_RightStick_Left =
     \<lparr>KeyName = ''Gamepad_RightStick_Left'', IsGamepadKey = True, IsMouseButton = False\<rparr>"

definition EKeys_Gamepad_RightStick_Right :: FKey where
  "EKeys_Gamepad_RightStick_Right =
     \<lparr>KeyName = ''Gamepad_RightStick_Right'', IsGamepadKey = True, IsMouseButton = False\<rparr>"

text \<open>
  The detector (\<^verbatim>\<open>FInputModeDetector\<close>): the two per-player arrays and the
  suppression flag. Its two delegates are outputs: a step returns the list of delegate
  executions it made, in order.
\<close>

record FInputModeDetector =
  LastInputModeByPlayer :: "EInputMode list"
  LastButtonPressByPlayer :: "EInputMode list"
  bIgnoreEvents :: bool

datatype DelegateCall =
    OnButtonInputModeChanged int EInputMode
  | OnInputModeChanged int EInputMode

definition DefaultInputMode :: EInputMode where
  "DefaultInputMode = Mouse"

definition DefaultButtonInputMode :: EInputMode where
  "DefaultButtonInputMode = Keyboard"

text \<open>
  The thresholds are \<^verbatim>\<open>const float\<close> members; analog values and screen positions
  are floats. They are modelled by the real numbers they denote: rounding of the literal
  \<^verbatim>\<open>0.2\<close> and of the subtraction of two positions is not modelled.
\<close>

definition MouseMoveThreshold :: real where
  "MouseMoveThreshold = 1"

definition GamepadAxisThreshold :: real where
  "GamepadAxisThreshold = 0.2"

section \<open>The engine's array\<close>

text \<open>
  \<^verbatim>\<open>TArray\<close> as a list. \<^verbatim>\<open>Init(v, n)\<close> makes \<open>n\<close> copies of \<open>v\<close>.
  \<^verbatim>\<open>SetNum(n)\<close> appends value-initialised elements up to length \<open>n\<close> (or cuts the
  array down to \<open>n\<close>). \<^verbatim>\<open>operator[]\<close> checks its index (\<^verbatim>\<open>RangeCheck\<close>); a failed
  check stops the program, which is the result \<open>None\<close>.
\<close>

definition Num :: "'a list \<Rightarrow> int" where
  "Num A = int (length A)"

definition Init :: "'a \<Rightarrow> nat \<Rightarrow> 'a list" where
  "Init v n = replicate n v"

definition SetNum :: "'a \<Rightarrow> int \<Rightarrow> 'a list \<Rightarrow> 'a list" where
  "SetNum Zero NewNum A =
     (if NewNum > Num A then A @ replicate (nat (NewNum - Num A)) Zero
      else take (nat NewNum) A)"

definition Assign :: "'a list \<Rightarrow> int \<Rightarrow> 'a \<Rightarrow> 'a list option" where
  "Assign A Index v =
     (if 0 \<le> Index \<and> Index < Num A then Some (A[nat Index := v]) else None)"

section \<open>The input mode detector\<close>

definition ShouldProcessInputEvents :: "FInputModeDetector \<Rightarrow> bool" where
  "ShouldProcessInputEvents D = (\<not> bIgnoreEvents D)"

definition FInputModeDetector_new :: FInputModeDetector where
  "FInputModeDetector_new =
     \<lparr>LastInputModeByPlayer = Init DefaultInputMode 4,
      LastButtonPressByPlayer = Init DefaultButtonInputMode 4,
      bIgnoreEvents = False\<rparr>"

definition GetLastInputMode :: "FInputModeDetector \<Rightarrow> int \<Rightarrow> EInputMode" where
  "GetLastInputMode D PlayerIndex =
     (if PlayerIndex \<ge> 0 \<and> PlayerIndex < Num (LastInputModeByPlayer D)
      then LastInputModeByPlayer D ! nat PlayerIndex
      else DefaultInputMode)"

definition GetLastButtonInputMode :: "FInputModeDetector \<Rightarrow> int \<Rightarrow> EInputMode" where
  "GetLastButtonInputMode D PlayerIndex =
     (if PlayerIndex \<ge> 0 \<and> PlayerIndex < Num (LastButtonPressByPlayer D)
      then LastButtonPressByPlayer D ! nat PlayerIndex
      else DefaultButtonInputMode)"

definition IsAGamepadButton :: "FKey \<Rightarrow> bool" where
  "IsAGamepadButton Key =
     (IsGamepadKey Key \<and>
      KeyName Key \<noteq> KeyName EKeys_Gamepad_LeftStick_Up \<and>
      KeyName Key \<noteq> KeyName EKeys_Gamepad_LeftStick_Down \<and>
      KeyName Key \<noteq> KeyName EKeys_Gamepad_LeftStick_Left \<and>
      KeyName Key \<noteq> KeyName EKeys_Gamepad_LeftStick_Right \<and>
      KeyName Key \<noteq> KeyName EKeys_Gamepad_RightStick_Up \<and>
      KeyName Key \<noteq> KeyName EKeys_Gamepad_RightStick_Down \<and>
      KeyName Key \<noteq> KeyName EKeys_Gamepad_RightStick_Left \<and>
      KeyName Key \<noteq> KeyName EKeys_Gamepad_RightStick_Right)"

text \<open>
  \<^verbatim>\<open>SetMode\<close>: the button block, then the main block, then the delegates. Each block
  grows its array when the index is past the end and then assigns; the assignment is
  the checked \<^verbatim>\<open>operator[]\<close>, so a negative index that needs a write stops the
  program. \<open>PlayerIndex + 1\<close> is exact: the 32-bit range of \<^verbatim>\<open>int\<close> is not modelled.
\<close>

definition SetMode ::
  "EInputMode \<Rightarrow> int \<Rightarrow> EInputMode \<Rightarrow> bool \<Rightarrow> FInputModeDetector
     \<Rightarrow> (FInputModeDetector \<times> DelegateCall list) option" where
  "SetMode Zero PlayerIndex NewMode bIsButton D =
     do {
       (D1, bButtonChanged) \<leftarrow>
         (if bIsButton then
            (if NewMode \<noteq> Unknown \<and> NewMode \<noteq> GetLastButtonInputMode D PlayerIndex then
               do {
                 let A = (if PlayerIndex \<ge> Num (LastButtonPressByPlayer D)
                          then SetNum Zero (PlayerIndex + 1) (LastButtonPressByPlayer D)
                          else LastButtonPressByPlayer D);
                 A' \<leftarrow> Assign A PlayerIndex NewMode;
                 Some (D\<lparr>LastButtonPressByPlayer := A'\<rparr>, True)
               }
             else Some (D, False))
          else Some (D, False));
       (D2, bMainChanged) \<leftarrow>
         (if NewMode \<noteq> Unknown \<and> NewMode \<noteq> GetLastInputMode D1 PlayerIndex then
            do {
              let A = (if PlayerIndex \<ge> Num (LastInputModeByPlayer D1)
                       then SetNum Zero (PlayerIndex + 1) (LastInputModeByPlayer D1)
                       else LastInputModeByPlayer D1);
              A' \<leftarrow> Assign A PlayerIndex NewMode;
              Some (D1\<lparr>LastInputModeByPlayer := A'\<rparr>, True)
            }
          else Some (D1, False));
       Some (D2,
         (if bButtonChanged then [OnButtonInputModeChanged PlayerIndex NewMode] else []) @
         (if bMainChanged then [OnInputModeChanged PlayerIndex NewMode] else []))
     }"

definition ProcessKeyOrButton ::
  "EInputMode \<Rightarrow> int \<Rightarrow> FKey \<Rightarrow> FInputModeDetector
     \<Rightarrow> (FInputModeDetector \<times> DelegateCall list) option" where
  "ProcessKeyOrButton Zero PlayerIndex Key D =
     (if IsGamepadKey Key then SetMode Zero PlayerIndex Gamepad (IsAGamepadButton Key) D
      else if IsMouseButton Key then SetMode Zero PlayerIndex Mouse True D
      else SetMode Zero PlayerIndex Keyboard True D)"

text \<open>
  The five event handlers. Each takes what it reads of the engine's event: the user
  index, and the key, the analog value or the two screen positions. Each returns
  \<^verbatim>\<open>false\<close> to the engine (the event is not consumed); the model keeps the effect on
  the detector and the delegate executions.
\<close>

definition HandleKeyDownEvent ::
  "EInputMode \<Rightarrow> int \<Rightarrow> FKey \<Rightarrow> FInputModeDetector
     \<Rightarrow> (FInputModeDetector \<times> DelegateCall list) option" where
  "HandleKeyDownEvent Zero UserIndex Key D =
     (if ShouldProcessInputEvents D then ProcessKeyOrButton Zero UserIndex Key D
      else Some (D, []))"

definition HandleAnalogInputEvent ::
  "EInputMode \<Rightarrow> int \<Rightarrow> real \<Rightarrow> FInputModeDetector
     \<Rightarrow> (FInputModeDetector \<times> DelegateCall list) option" where
  "HandleAnalogInputEvent Zero UserIndex AnalogValue D =
     (if ShouldProcessInputEvents D then
        (if AnalogValue > GamepadAxisThreshold then SetMode Zero UserIndex Gamepad False D
         else Some (D, []))
      else Some (D, []))"

definition HandleMouseMoveEvent ::
  "EInputMode \<Rightarrow> int \<Rightarrow> real \<times> real \<Rightarrow> real \<times> real \<Rightarrow> FInputModeDetector
     \<Rightarrow> (FInputModeDetector \<times> DelegateCall list) option" where
  "HandleMouseMoveEvent Zero UserIndex ScreenSpacePosition LastScreenSpacePosition D =
     (if ShouldProcessInputEvents D then
        (let DistX = fst ScreenSpacePosition - fst LastScreenSpacePosition;
             DistY = snd ScreenSpacePosition - snd LastScreenSpacePosition
         in if \<bar>DistX\<bar> > MouseMoveThreshold \<or> \<bar>DistY\<bar> > MouseMoveThreshold
            then SetMode Zero UserIndex Mouse False D
            else Some (D, []))
      else Some (D, []))"

definition HandleMouseButtonDownEvent ::
  "EInputMode \<Rightarrow> int \<Rightarrow> FInputModeDetector
     \<Rightarrow> (FInputModeDetector \<times> DelegateCall list) option" where
  "HandleMouseButtonDownEvent Zero UserIndex D =
     (if ShouldProcessInputEvents D then SetMode Zero UserIndex Mouse True D
      else Some (D, []))"

definition HandleMouseWheelOrGestureEvent ::
  "EInputMode \<Rightarrow> int \<Rightarrow> FInputModeDetector
     \<Rightarrow> (FInputModeDetector \<times> DelegateCall list) option" where
  "HandleMouseWheelOrGestureEvent Zero UserIndex D =
     (if ShouldProcessInputEvents D then SetMode Zero UserIndex Mouse False D
      else Some (D, []))"

text \<open>
  The engine delivers events one at a time. An \<open>InputEvent\<close> names the handler and its
  arguments; \<open>ProcessEvents\<close> delivers a list in order and collects the delegate
  executions.
\<close>

datatype InputEvent =
    KeyDown int FKey
  | AnalogInput int real
  | MouseMove int "real \<times> real" "real \<times> real"
  | MouseButtonDown int
  | MouseWheelOrGesture int

fun UserIndexOf :: "InputEvent \<Rightarrow> int" where
  "UserIndexOf (KeyDown i k) = i"
| "UserIndexOf (AnalogInput i v) = i"
| "UserIndexOf (MouseMove i p q) = i"
| "UserIndexOf (MouseButtonDown i) = i"
| "UserIndexOf (MouseWheelOrGesture i) = i"

fun ProcessEvent ::
  "EInputMode \<Rightarrow> InputEvent \<Rightarrow> FInputModeDetector
     \<Rightarrow> (FInputModeDetector \<times> DelegateCall list) option" where
  "ProcessEvent Zero (KeyDown i k) D = HandleKeyDownEvent Zero i k D"
| "ProcessEvent Zero (AnalogInput i v) D = HandleAnalogInputEvent Zero i v D"
| "ProcessEvent Zero (MouseMove i p q) D = HandleMouseMoveEvent Zero i p q D"
| "ProcessEvent Zero (MouseButtonDown i) D = HandleMouseButtonDownEvent Zero i D"
| "ProcessEvent Zero (MouseWheelOrGesture i) D = HandleMouseWheelOrGestureEvent Zero i D"

fun ProcessEvents ::
  "EInputMode \<Rightarrow> InputEvent list \<Rightarrow> FInputModeDetector
     \<Rightarrow> (FInputModeDetector \<times> DelegateCall list) option" where
  "ProcessEvents Zero [] D = Some (D, [])"
| "ProcessEvents Zero (e # es) D =
     (case ProcessEvent Zero e D of
        None \<Rightarrow> None
      | Some (D1, calls1) \<Rightarrow>
          (case ProcessEvents Zero es D1 of
             None \<Rightarrow> None
           | Some (D2, calls2) \<Rightarrow> Some (D2, calls1 @ calls2)))"

section \<open>The subsystem: foreground check\<close>

text \<open>
  The part of \<^verbatim>\<open>UStevesGameSubsystem\<close> the foreground check and the image lookups
  use: the detector it owns and \<^verbatim>\<open>bIsForeground\<close>. The subsystem is modelled between
  \<^verbatim>\<open>Initialize\<close> and \<^verbatim>\<open>Deinitialize\<close>, where \<^verbatim>\<open>InputDetector\<close> points to a
  detector. \<^verbatim>\<open>OnWindowForegroundChanged\<close> is an output: the list of broadcasts made.
\<close>

record UStevesGameSubsystem =
  InputDetector :: FInputModeDetector
  bIsForeground :: bool

datatype SubsystemBroadcast = OnWindowForegroundChanged bool

text \<open>
  \<^verbatim>\<open>CheckForeground\<close> reads the engine: \<open>Viewport\<close> is \<open>None\<close> when the engine, its
  game viewport or the viewport's window is not valid, and \<open>Some f\<close> when
  \<^verbatim>\<open>IsForegroundWindow()\<close> answers \<open>f\<close>.
\<close>

definition CheckForeground ::
  "bool option \<Rightarrow> UStevesGameSubsystem \<Rightarrow> UStevesGameSubsystem \<times> SubsystemBroadcast list" where
  "CheckForeground Viewport S =
     (let bNewForeground = (case Viewport of Some f \<Rightarrow> f | None \<Rightarrow> bIsForeground S)
      in if bNewForeground \<noteq> bIsForeground S then
           (let S1 = S\<lparr>bIsForeground := bNewForeground\<rparr>;
                S2 = S1\<lparr>InputDetector := (InputDetector S1)\<lparr>bIgnoreEvents := \<not> bIsForeground S1\<rparr>\<rparr>
            in (S2, [OnWindowForegroundChanged (bIsForeground S2)]))
         else (S, []))"

definition GetLastInputModeUsed :: "UStevesGameSubsystem \<Rightarrow> int \<Rightarrow> EInputMode" where
  "GetLastInputModeUsed S PlayerIndex = GetLastInputMode (InputDetector S) PlayerIndex"

definition GetLastInputButtonPressed :: "UStevesGameSubsystem \<Rightarrow> int \<Rightarrow> EInputMode" where
  "GetLastInputButtonPressed S PlayerIndex = GetLastButtonInputMode (InputDetector S) PlayerIndex"

text \<open>
  \<^verbatim>\<open>InitForegroundCheck\<close> starts a looping timer that calls \<^verbatim>\<open>CheckForeground\<close>
  every half second. \<open>Polls\<close> is that sequence of calls, one per observation of the
  engine, with the broadcasts collected in order.
\<close>

fun Polls ::
  "bool option list \<Rightarrow> UStevesGameSubsystem \<Rightarrow> UStevesGameSubsystem \<times> SubsystemBroadcast list" where
  "Polls [] S = (S, [])"
| "Polls (v # vs) S =
     (case CheckForeground v S of
        (S1, b1) \<Rightarrow> (case Polls vs S1 of (S2, b2) \<Rightarrow> (S2, b1 @ b2)))"

text \<open>
  What "edge-triggered" asks of the polls, in the spec's words: a reaction on each
  focus-state transition and on nothing else. \<open>FocusTransitions cur vs\<close> lists the
  focus states at which the observations \<open>vs\<close> differ from the state last seen,
  starting from the stored state \<open>cur\<close>; an observation that could not be made counts
  as no change.
\<close>

fun FocusTransitions :: "bool \<Rightarrow> bool option list \<Rightarrow> bool list" where
  "FocusTransitions cur [] = []"
| "FocusTransitions cur (None # vs) = FocusTransitions cur vs"
| "FocusTransitions cur (Some f # vs) =
     (if f = cur then FocusTransitions cur vs else f # FocusTransitions f vs)"

section \<open>The subsystem: image lookups\<close>

text \<open>
  The enumerators of \<^verbatim>\<open>EInputImageDevicePreference\<close> that the source names. The
  engine's mapping types carry the key the lookups read (\<^verbatim>\<open>Preferred->Key\<close>).
\<close>

datatype EInputImageDevicePreference =
    Auto
  | Gamepad_Keyboard_Mouse
  | Gamepad_Mouse_Keyboard
  | Gamepad_Keyboard_Mouse_Button

record FInputActionKeyMapping =
  ActionName :: string
  ActionKey :: FKey

record FInputAxisKeyMapping =
  AxisName :: string
  AxisKey :: FKey
  Scale :: real

text \<open>
  The preference each lookup hands to the resolver (the \<^verbatim>\<open>if\<close> that precedes the
  resolver call in \<^verbatim>\<open>GetInputImageSpriteFromAction\<close> and in
  \<^verbatim>\<open>GetInputImageSpriteFromAxis\<close>): \<^verbatim>\<open>Auto\<close> is replaced, any other preference is
  passed as given.
\<close>

definition ActionDevicePreference :: "EInputImageDevicePreference \<Rightarrow> EInputImageDevicePreference" where
  "ActionDevicePreference DevicePreference =
     (if DevicePreference = Auto then Gamepad_Keyboard_Mouse_Button else DevicePreference)"

definition AxisDevicePreference :: "EInputImageDevicePreference \<Rightarrow> EInputImageDevicePreference" where
  "AxisDevicePreference DevicePreference =
     (if DevicePreference = Auto then Gamepad_Mouse_Keyboard else DevicePreference)"

text \<open>
  The two lookups. Their collaborators are parameters: the input settings
  (\<^verbatim>\<open>GetActionMappingByName\<close>, \<^verbatim>\<open>GetAxisMappingByName\<close>), the resolver template
  \<^verbatim>\<open>GetPreferedActionOrAxisMapping\<close> (declared in a header version that is not among
  the source files; it returns a mapping or null) and \<^verbatim>\<open>GetInputImageSpriteFromKey\<close>
  (whose theme and data table types are declared elsewhere). A null sprite is \<open>None\<close>.
\<close>

definition GetInputImageSpriteFromAction ::
  "(string \<Rightarrow> FInputActionKeyMapping list)
   \<Rightarrow> (FInputActionKeyMapping list \<Rightarrow> string \<Rightarrow> EInputImageDevicePreference
        \<Rightarrow> EInputMode \<Rightarrow> EInputMode \<Rightarrow> FInputActionKeyMapping option)
   \<Rightarrow> (FKey \<Rightarrow> int \<Rightarrow> 'theme \<Rightarrow> 'sprite option)
   \<Rightarrow> UStevesGameSubsystem \<Rightarrow> string \<Rightarrow> EInputImageDevicePreference \<Rightarrow> int \<Rightarrow> 'theme
   \<Rightarrow> 'sprite option" where
  "GetInputImageSpriteFromAction GetActionMappingByName GetPreferedActionOrAxisMapping
       GetInputImageSpriteFromKey S Name DevicePreference PlayerIdx Theme =
     (let GS_TempActionMap = GetActionMappingByName Name;
          DevicePreference1 = ActionDevicePreference DevicePreference;
          LastInput = GetLastInputModeUsed S PlayerIdx;
          LastButtonInput = GetLastInputButtonPressed S PlayerIdx;
          Preferred = GetPreferedActionOrAxisMapping GS_TempActionMap Name DevicePreference1
                        LastInput LastButtonInput
      in case Preferred of
           Some m \<Rightarrow> GetInputImageSpriteFromKey (ActionKey m) PlayerIdx Theme
         | None \<Rightarrow> None)"

definition GetInputImageSpriteFromAxis ::
  "(string \<Rightarrow> FInputAxisKeyMapping list)
   \<Rightarrow> (FInputAxisKeyMapping list \<Rightarrow> string \<Rightarrow> EInputImageDevicePreference
        \<Rightarrow> EInputMode \<Rightarrow> EInputMode \<Rightarrow> FInputAxisKeyMapping option)
   \<Rightarrow> (FKey \<Rightarrow> int \<Rightarrow> 'theme \<Rightarrow> 'sprite option)
   \<Rightarrow> UStevesGameSubsystem \<Rightarrow> string \<Rightarrow> EInputImageDevicePreference \<Rightarrow> int \<Rightarrow> 'theme
   \<Rightarrow> 'sprite option" where
  "GetInputImageSpriteFromAxis GetAxisMappingByName GetPreferedActionOrAxisMapping
       GetInputImageSpriteFromKey S Name DevicePreference PlayerIdx Theme =
     (let GS_TempAxisMap = GetAxisMappingByName Name;
          DevicePreference1 = AxisDevicePreference DevicePreference;
          LastInput = GetLastInputModeUsed S PlayerIdx;
          LastButtonInput = GetLastInputButtonPressed S PlayerIdx;
          Preferred = GetPreferedActionOrAxisMapping GS_TempAxisMap Name DevicePreference1
                        LastInput LastButtonInput
      in case Preferred of
           Some m \<Rightarrow> GetInputImageSpriteFromKey (AxisKey m) PlayerIdx Theme
         | None \<Rightarrow> None)"

text \<open>
  Modelled from the spec: the declaration of \<^verbatim>\<open>EInputImageDevicePreference\<close> and the
  resolver that interprets it are not among the source files. The spec describes a
  preference as an ordered list of device categories, walked in priority order; the
  categories it names for the two lookups are gamepad, keyboard, mouse and "whichever
  device produced the last button press".
\<close>

datatype DeviceCategory =
    GamepadDevice
  | KeyboardDevice
  | MouseDevice
  | LastButtonDevice

text \<open>
  Modelled from the spec: the order a preference stands for, which the missing
  declaration and resolver would fix. The spec gives two orders: what a button-style
  lookup resolves \<^verbatim>\<open>Auto\<close> to is gamepad, keyboard, mouse, last button device, and
  what an axis-style lookup resolves \<^verbatim>\<open>Auto\<close> to is gamepad, mouse, keyboard, last
  button device. In the source these are \<^verbatim>\<open>Gamepad_Keyboard_Mouse_Button\<close> and
  \<^verbatim>\<open>Gamepad_Mouse_Keyboard\<close>. The spec gives no order for \<^verbatim>\<open>Auto\<close> itself, which
  is replaced before the resolver runs, nor for \<^verbatim>\<open>Gamepad_Keyboard_Mouse\<close>.
\<close>

fun PreferenceOrder :: "EInputImageDevicePreference \<Rightarrow> DeviceCategory list option" where
  "PreferenceOrder Auto = None"
| "PreferenceOrder Gamepad_Keyboard_Mouse = None"
| "PreferenceOrder Gamepad_Mouse_Keyboard =
     Some [GamepadDevice, MouseDevice, KeyboardDevice, LastButtonDevice]"
| "PreferenceOrder Gamepad_Keyboard_Mouse_Button =
     Some [GamepadDevice, KeyboardDevice, MouseDevice, LastButtonDevice]"

section \<open>Auxiliary notions\<close>

text \<open>
  Two abbreviations for stating the lemmas, both read off the code above.
  \<open>StoreAt\<close> is the array a block of \<^verbatim>\<open>SetMode\<close> leaves when it writes: grown by
  \<^verbatim>\<open>SetNum\<close> when the index is past the end, then assigned at the index. \<open>ReadAt\<close>
  is the read both getters make: the element when the index is in range, the default
  otherwise.
\<close>

definition StoreAt :: "'a \<Rightarrow> int \<Rightarrow> 'a \<Rightarrow> 'a list \<Rightarrow> 'a list" where
  "StoreAt Zero PlayerIndex NewMode A =
     (if PlayerIndex \<ge> Num A then SetNum Zero (PlayerIndex + 1) A else A)
       [nat PlayerIndex := NewMode]"

definition ReadAt :: "'a \<Rightarrow> 'a list \<Rightarrow> int \<Rightarrow> 'a" where
  "ReadAt d A j = (if j \<ge> 0 \<and> j < Num A then A ! nat j else d)"

section \<open>Arrays: storing and reading\<close>

lemma Num_SetNum_grow: "Num A \<le> p \<Longrightarrow> Num (SetNum Z (p + 1) A) = p + 1"
  by (simp add: SetNum_def Num_def)

lemma Num_StoreAt:
  "0 \<le> p \<Longrightarrow> Num (StoreAt Z p M A) = (if Num A \<le> p then p + 1 else Num A)"
  by (auto simp add: StoreAt_def SetNum_def Num_def)

lemma nth_StoreAt_same:
  assumes "0 \<le> p"
  shows "StoreAt Z p M A ! nat p = M"
  using assms by (auto simp add: StoreAt_def SetNum_def Num_def)

lemma nth_StoreAt_other:
  assumes "0 \<le> p" "0 \<le> j" "j \<noteq> p" "j < Num A"
  shows "StoreAt Z p M A ! nat j = A ! nat j"
  using assms by (auto simp add: StoreAt_def SetNum_def Num_def nth_append)

lemma set_StoreAt:
  assumes "0 \<le> p"
  shows "set (StoreAt Z p M A) \<subseteq> set A \<union> {Z, M}"
proof -
  have "set (B[nat p := M]) \<subseteq> insert M (set B)" for B
    by (rule set_update_subset_insert)
  moreover have "set (if p \<ge> Num A then SetNum Z (p + 1) A else A) \<subseteq> set A \<union> {Z}"
    by (auto simp add: SetNum_def)
  ultimately show ?thesis unfolding StoreAt_def by blast
qed

lemma ReadAt_StoreAt_same: "0 \<le> p \<Longrightarrow> ReadAt d (StoreAt Z p M A) p = M"
  by (simp add: ReadAt_def Num_StoreAt nth_StoreAt_same)

lemma ReadAt_StoreAt_other:
  assumes "0 \<le> p" "j \<noteq> p" "j < Num A"
  shows "ReadAt d (StoreAt Z p M A) j = ReadAt d A j"
proof (cases "0 \<le> j")
  case True
  then show ?thesis using assms by (simp add: ReadAt_def Num_StoreAt nth_StoreAt_other)
next
  case False
  then show ?thesis by (simp add: ReadAt_def)
qed

lemma StoreAt_differs:
  assumes "0 \<le> p" "ReadAt d A p \<noteq> M"
  shows "StoreAt Z p M A \<noteq> A"
proof
  assume eq: "StoreAt Z p M A = A"
  have "ReadAt d (StoreAt Z p M A) p = M" using assms(1) by (rule ReadAt_StoreAt_same)
  then show False using eq assms(2) by simp
qed

lemma GetLastInputMode_ReadAt:
  "GetLastInputMode D j = ReadAt DefaultInputMode (LastInputModeByPlayer D) j"
  by (simp add: GetLastInputMode_def ReadAt_def)

lemma GetLastButtonInputMode_ReadAt:
  "GetLastButtonInputMode D j = ReadAt DefaultButtonInputMode (LastButtonPressByPlayer D) j"
  by (simp add: GetLastButtonInputMode_def ReadAt_def)

lemma GetLastInputMode_cases:
  "GetLastInputMode D s = DefaultInputMode \<or> GetLastInputMode D s \<in> set (LastInputModeByPlayer D)"
  by (auto simp add: GetLastInputMode_def Num_def)

lemma GetLastButtonInputMode_cases:
  "GetLastButtonInputMode D s = DefaultButtonInputMode
     \<or> GetLastButtonInputMode D s \<in> set (LastButtonPressByPlayer D)"
  by (auto simp add: GetLastButtonInputMode_def Num_def)

section \<open>SetMode in closed form\<close>

text \<open>
  With a non-negative index \<^verbatim>\<open>SetMode\<close> always returns: each array is stored to when
  its block's condition holds, and the delegates executed are exactly those of the
  blocks that stored.
\<close>

lemma SetMode_closed:
  assumes "0 \<le> p"
  shows "SetMode Z p M b D =
    Some (D\<lparr>LastButtonPressByPlayer :=
               (if b \<and> M \<noteq> Unknown \<and> M \<noteq> GetLastButtonInputMode D p
                then StoreAt Z p M (LastButtonPressByPlayer D) else LastButtonPressByPlayer D),
             LastInputModeByPlayer :=
               (if M \<noteq> Unknown \<and> M \<noteq> GetLastInputMode D p
                then StoreAt Z p M (LastInputModeByPlayer D) else LastInputModeByPlayer D)\<rparr>,
          (if b \<and> M \<noteq> Unknown \<and> M \<noteq> GetLastButtonInputMode D p
           then [OnButtonInputModeChanged p M] else []) @
          (if M \<noteq> Unknown \<and> M \<noteq> GetLastInputMode D p
           then [OnInputModeChanged p M] else []))"
  using assms
  by (auto simp add: SetMode_def StoreAt_def Assign_def GetLastInputMode_def Num_SetNum_grow
      Let_def)

lemma SetMode_total: "0 \<le> p \<Longrightarrow> \<exists>D' calls. SetMode Z p M b D = Some (D', calls)"
  by (simp add: SetMode_closed)

text \<open>
  With a negative index the checked assignment fails whenever a block wants to store, so
  a call that returns has changed nothing.
\<close>

lemma SetMode_negative:
  assumes "p < 0" and "SetMode Z p M b D = Some (D', calls)"
  shows "D' = D \<and> calls = []"
  using assms
  by (auto simp add: SetMode_def Assign_def Num_def Let_def split: if_splits)

lemma SetMode_noop:
  assumes "M = Unknown \<or> (M = GetLastInputMode D p \<and> (\<not> b \<or> M = GetLastButtonInputMode D p))"
  shows "SetMode Z p M b D = Some (D, [])"
  using assms by (auto simp add: SetMode_def)

lemma SetMode_fields:
  assumes "0 \<le> p" and "SetMode Z p M b D = Some (D', calls)"
  shows "LastButtonPressByPlayer D' =
           (if b \<and> M \<noteq> Unknown \<and> M \<noteq> GetLastButtonInputMode D p
            then StoreAt Z p M (LastButtonPressByPlayer D) else LastButtonPressByPlayer D)"
    and "LastInputModeByPlayer D' =
           (if M \<noteq> Unknown \<and> M \<noteq> GetLastInputMode D p
            then StoreAt Z p M (LastInputModeByPlayer D) else LastInputModeByPlayer D)"
    and "bIgnoreEvents D' = bIgnoreEvents D"
    and "calls =
          (if b \<and> M \<noteq> Unknown \<and> M \<noteq> GetLastButtonInputMode D p
           then [OnButtonInputModeChanged p M] else []) @
          (if M \<noteq> Unknown \<and> M \<noteq> GetLastInputMode D p
           then [OnInputModeChanged p M] else [])"
  using assms(2) unfolding SetMode_closed [OF assms(1)] by auto

lemma GetLastInputMode_after:
  assumes "0 \<le> p" and "SetMode Z p M b D = Some (D', calls)"
  shows "GetLastInputMode D' p = (if M \<noteq> Unknown then M else GetLastInputMode D p)"
  unfolding GetLastInputMode_ReadAt [of D'] SetMode_fields(2) [OF assms]
  using ReadAt_StoreAt_same [OF assms(1), of DefaultInputMode Z M "LastInputModeByPlayer D"]
  by (auto simp add: GetLastInputMode_ReadAt)

lemma GetLastButtonInputMode_after:
  assumes "0 \<le> p" and "SetMode Z p M b D = Some (D', calls)"
  shows "GetLastButtonInputMode D' p =
           (if b \<and> M \<noteq> Unknown then M else GetLastButtonInputMode D p)"
  unfolding GetLastButtonInputMode_ReadAt [of D'] SetMode_fields(1) [OF assms]
  using ReadAt_StoreAt_same [OF assms(1), of DefaultButtonInputMode Z M "LastButtonPressByPlayer D"]
  by (auto simp add: GetLastButtonInputMode_ReadAt)

text \<open>
  The delegates a call executes, told from the reads before and after it: a delegate is
  executed exactly when the read of the call's slot changed, and it carries the new
  read. Likewise an array differs after the call exactly when the read of the slot
  changed.
\<close>

lemma SetMode_reads:
  assumes "SetMode Z p M b D = Some (D', calls)"
  shows "calls =
      (if GetLastButtonInputMode D' p \<noteq> GetLastButtonInputMode D p
       then [OnButtonInputModeChanged p (GetLastButtonInputMode D' p)] else []) @
      (if GetLastInputMode D' p \<noteq> GetLastInputMode D p
       then [OnInputModeChanged p (GetLastInputMode D' p)] else [])"
proof (cases "0 \<le> p")
  case False
  then show ?thesis using SetMode_negative [of p Z M b D D' calls] assms by simp
next
  case True
  show ?thesis
    unfolding GetLastInputMode_after [OF True assms] GetLastButtonInputMode_after [OF True assms]
      SetMode_fields(4) [OF True assms]
    by auto
qed

lemma SetMode_array_changed:
  assumes "SetMode Z p M b D = Some (D', calls)"
  shows "((LastInputModeByPlayer D' \<noteq> LastInputModeByPlayer D)
           = (GetLastInputMode D' p \<noteq> GetLastInputMode D p))
       \<and> ((LastButtonPressByPlayer D' \<noteq> LastButtonPressByPlayer D)
           = (GetLastButtonInputMode D' p \<noteq> GetLastButtonInputMode D p))"
proof (cases "0 \<le> p")
  case False
  then show ?thesis using SetMode_negative [of p Z M b D D' calls] assms by simp
next
  case True
  have m: "M \<noteq> GetLastInputMode D p \<Longrightarrow>
             StoreAt Z p M (LastInputModeByPlayer D) \<noteq> LastInputModeByPlayer D"
    using StoreAt_differs [OF True, of DefaultInputMode "LastInputModeByPlayer D" M Z]
    by (auto simp add: GetLastInputMode_ReadAt)
  have bt: "M \<noteq> GetLastButtonInputMode D p \<Longrightarrow>
             StoreAt Z p M (LastButtonPressByPlayer D) \<noteq> LastButtonPressByPlayer D"
    using StoreAt_differs [OF True, of DefaultButtonInputMode "LastButtonPressByPlayer D" M Z]
    by (auto simp add: GetLastButtonInputMode_ReadAt)
  show ?thesis
    unfolding GetLastInputMode_after [OF True assms] GetLastButtonInputMode_after [OF True assms]
      SetMode_fields(1) [OF True assms] SetMode_fields(2) [OF True assms]
    using m bt by auto
qed

lemma SetMode_frame:
  assumes "SetMode Z p M b D = Some (D', calls)"
  shows "bIgnoreEvents D' = bIgnoreEvents D
       \<and> (\<not> b \<longrightarrow> LastButtonPressByPlayer D' = LastButtonPressByPlayer D)
       \<and> (j \<noteq> p \<and> j < Num (LastInputModeByPlayer D) \<longrightarrow>
            GetLastInputMode D' j = GetLastInputMode D j)
       \<and> (j \<noteq> p \<and> j < Num (LastButtonPressByPlayer D) \<longrightarrow>
            GetLastButtonInputMode D' j = GetLastButtonInputMode D j)"
proof (cases "0 \<le> p")
  case False
  then show ?thesis using SetMode_negative [of p Z M b D D' calls] assms by simp
next
  case True
  show ?thesis
    unfolding GetLastInputMode_ReadAt GetLastButtonInputMode_ReadAt
      SetMode_fields(1) [OF True assms] SetMode_fields(2) [OF True assms]
      SetMode_fields(3) [OF True assms]
    using ReadAt_StoreAt_other [OF True, of j]
    by auto
qed

lemma SetMode_keeps_Unknown_out:
  assumes Z: "Z \<noteq> Unknown"
    and run: "SetMode Z p M b D = Some (D', calls)"
    and inv: "Unknown \<notin> set (LastInputModeByPlayer D)" "Unknown \<notin> set (LastButtonPressByPlayer D)"
  shows "Unknown \<notin> set (LastInputModeByPlayer D') \<and> Unknown \<notin> set (LastButtonPressByPlayer D')"
proof (cases "0 \<le> p")
  case False
  then have "D' = D" using SetMode_negative [of p Z M b D D' calls] run by simp
  then show ?thesis using inv by simp
next
  case True
  note st = set_StoreAt [OF True, of Z M]
  show ?thesis
    unfolding SetMode_fields(1) [OF True run] SetMode_fields(2) [OF True run]
    using inv Z st [of "LastInputModeByPlayer D"] st [of "LastButtonPressByPlayer D"]
    by auto
qed

section \<open>The handlers\<close>

text \<open>
  Every handler either leaves the detector alone or is one call of \<^verbatim>\<open>SetMode\<close> for
  the event's user index with a mode other than \<^verbatim>\<open>Unknown\<close>.
\<close>

lemma ProcessEvent_cases:
  assumes "ProcessEvent Z e D = Some r"
  shows "r = (D, []) \<or> (\<exists>M b. M \<noteq> Unknown \<and> SetMode Z (UserIndexOf e) M b D = Some r)"
  using assms
  by (cases e)
     (auto simp add: HandleKeyDownEvent_def HandleAnalogInputEvent_def HandleMouseMoveEvent_def
        HandleMouseButtonDownEvent_def HandleMouseWheelOrGestureEvent_def ProcessKeyOrButton_def
        Let_def split: if_splits)

lemma ProcessEvent_total:
  assumes "0 \<le> UserIndexOf e"
  shows "ProcessEvent Z e D \<noteq> None"
  using assms
  by (cases e)
     (auto simp add: HandleKeyDownEvent_def HandleAnalogInputEvent_def HandleMouseMoveEvent_def
        HandleMouseButtonDownEvent_def HandleMouseWheelOrGestureEvent_def ProcessKeyOrButton_def
        Let_def SetMode_closed)

lemma ProcessEvents_total:
  "(\<forall>e \<in> set es. 0 \<le> UserIndexOf e) \<Longrightarrow> ProcessEvents Z es D \<noteq> None"
proof (induction es arbitrary: D)
  case Nil
  then show ?case by simp
next
  case (Cons e es)
  then have "ProcessEvent Z e D \<noteq> None" using ProcessEvent_total by simp
  then obtain D1 c1 where "ProcessEvent Z e D = Some (D1, c1)" by auto
  moreover have "ProcessEvents Z es D1 \<noteq> None" using Cons by simp
  ultimately show ?case by auto
qed

lemma ProcessEvent_keeps_Unknown_out:
  assumes "Z \<noteq> Unknown" "ProcessEvent Z e D = Some (D', calls)"
    "Unknown \<notin> set (LastInputModeByPlayer D)" "Unknown \<notin> set (LastButtonPressByPlayer D)"
  shows "Unknown \<notin> set (LastInputModeByPlayer D') \<and> Unknown \<notin> set (LastButtonPressByPlayer D')"
  using ProcessEvent_cases [OF assms(2)] assms
    SetMode_keeps_Unknown_out [of Z "UserIndexOf e" _ _ D D' calls]
  by auto

lemma ProcessEvents_keeps_Unknown_out:
  assumes "Z \<noteq> Unknown"
  shows "ProcessEvents Z es D = Some (D', calls) \<Longrightarrow>
    Unknown \<notin> set (LastInputModeByPlayer D) \<Longrightarrow> Unknown \<notin> set (LastButtonPressByPlayer D) \<Longrightarrow>
    Unknown \<notin> set (LastInputModeByPlayer D') \<and> Unknown \<notin> set (LastButtonPressByPlayer D')"
proof (induction es arbitrary: D calls)
  case Nil
  then show ?case by simp
next
  case (Cons e es)
  from Cons.prems(1) obtain D1 c1 c2 where
    step: "ProcessEvent Z e D = Some (D1, c1)" and rest: "ProcessEvents Z es D1 = Some (D', c2)"
    by (auto split: option.splits)
  from ProcessEvent_keeps_Unknown_out [OF assms step Cons.prems(2) Cons.prems(3)]
  show ?case using Cons.IH [OF rest] by simp
qed

lemma ProcessEvent_reads:
  assumes "ProcessEvent Z e D = Some (D', calls)"
  shows "calls =
      (if GetLastButtonInputMode D' (UserIndexOf e) \<noteq> GetLastButtonInputMode D (UserIndexOf e)
       then [OnButtonInputModeChanged (UserIndexOf e) (GetLastButtonInputMode D' (UserIndexOf e))]
       else []) @
      (if GetLastInputMode D' (UserIndexOf e) \<noteq> GetLastInputMode D (UserIndexOf e)
       then [OnInputModeChanged (UserIndexOf e) (GetLastInputMode D' (UserIndexOf e))]
       else [])
    \<and> ((LastInputModeByPlayer D' \<noteq> LastInputModeByPlayer D)
           = (GetLastInputMode D' (UserIndexOf e) \<noteq> GetLastInputMode D (UserIndexOf e)))
    \<and> ((LastButtonPressByPlayer D' \<noteq> LastButtonPressByPlayer D)
           = (GetLastButtonInputMode D' (UserIndexOf e) \<noteq> GetLastButtonInputMode D (UserIndexOf e)))"
proof -
  from ProcessEvent_cases [OF assms]
  consider "D' = D" "calls = []"
    | M b where "SetMode Z (UserIndexOf e) M b D = Some (D', calls)"
    by auto
  then show ?thesis
  proof cases
    case 1
    then show ?thesis by simp
  next
    case 2
    show ?thesis
      using SetMode_reads [OF 2] SetMode_array_changed [OF 2] by blast
  qed
qed

lemma two_mouse_moves:
  assumes i: "0 \<le> i" and on: "\<not> bIgnoreEvents D"
    and m1: "\<bar>fst p - fst q\<bar> > MouseMoveThreshold \<or> \<bar>snd p - snd q\<bar> > MouseMoveThreshold"
    and m2: "\<bar>fst p' - fst q'\<bar> > MouseMoveThreshold \<or> \<bar>snd p' - snd q'\<bar> > MouseMoveThreshold"
  shows "\<exists>D'. ProcessEvents Zero [MouseMove i p q, MouseMove i p' q'] D
           = Some (D', if GetLastInputMode D i = Mouse then [] else [OnInputModeChanged i Mouse])"
proof -
  have h1: "HandleMouseMoveEvent Zero i p q D = SetMode Zero i Mouse False D"
    using on m1 by (auto simp add: HandleMouseMoveEvent_def ShouldProcessInputEvents_def Let_def)
  obtain D1 c1 where r1: "SetMode Zero i Mouse False D = Some (D1, c1)"
    using SetMode_total [OF i] by blast
  have c1: "c1 = (if GetLastInputMode D i = Mouse then [] else [OnInputModeChanged i Mouse])"
    using SetMode_fields(4) [OF i r1] by auto
  have on1: "\<not> bIgnoreEvents D1" using SetMode_fields(3) [OF i r1] on by simp
  have g1: "GetLastInputMode D1 i = Mouse" using GetLastInputMode_after [OF i r1] by simp
  have h2: "HandleMouseMoveEvent Zero i p' q' D1 = SetMode Zero i Mouse False D1"
    using on1 m2 by (auto simp add: HandleMouseMoveEvent_def ShouldProcessInputEvents_def Let_def)
  have r2: "SetMode Zero i Mouse False D1 = Some (D1, [])"
    using g1 by (intro SetMode_noop) simp
  show ?thesis using h1 r1 c1 h2 r2 by simp
qed

lemma IsAGamepadButton_iff:
  "IsAGamepadButton k =
     (IsGamepadKey k \<and>
      KeyName k \<notin> {KeyName EKeys_Gamepad_LeftStick_Up, KeyName EKeys_Gamepad_LeftStick_Down,
                     KeyName EKeys_Gamepad_LeftStick_Left, KeyName EKeys_Gamepad_LeftStick_Right,
                     KeyName EKeys_Gamepad_RightStick_Up, KeyName EKeys_Gamepad_RightStick_Down,
                     KeyName EKeys_Gamepad_RightStick_Left, KeyName EKeys_Gamepad_RightStick_Right})"
  unfolding IsAGamepadButton_def by blast

text \<open>
  What an analog event does, for every value: it sets the main mode to
  \<^verbatim>\<open>Gamepad\<close> exactly when the signed value is above the threshold, and never touches
  the button array.
\<close>

lemma HandleAnalogInputEvent_sets_Gamepad_iff:
  assumes "\<not> bIgnoreEvents D" and "0 \<le> i" and "GetLastInputMode D i \<noteq> Gamepad"
  shows "\<exists>D' calls. HandleAnalogInputEvent Zero i v D = Some (D', calls)
     \<and> (GetLastInputMode D' i = Gamepad) = (v > GamepadAxisThreshold)
     \<and> LastButtonPressByPlayer D' = LastButtonPressByPlayer D"
proof (cases "v > GamepadAxisThreshold")
  case True
  have h: "HandleAnalogInputEvent Zero i v D = SetMode Zero i Gamepad False D"
    using assms(1) True by (simp add: HandleAnalogInputEvent_def ShouldProcessInputEvents_def)
  obtain D' calls where run: "SetMode Zero i Gamepad False D = Some (D', calls)"
    using SetMode_total [OF assms(2)] by blast
  show ?thesis
    unfolding h run
    using GetLastInputMode_after [OF assms(2) run] SetMode_fields(1) [OF assms(2) run] True
    by simp
next
  case False
  then show ?thesis
    using assms by (simp add: HandleAnalogInputEvent_def)
qed

lemma ProcessEvents_suppressed:
  "bIgnoreEvents D \<Longrightarrow> ProcessEvents Zero es D = Some (D, [])"
proof (induction es)
  case Nil
  then show ?case by simp
next
  case (Cons e es)
  have "ProcessEvent Zero e D = Some (D, [])"
    using Cons.prems
    by (cases e)
       (simp_all add: HandleKeyDownEvent_def HandleAnalogInputEvent_def HandleMouseMoveEvent_def
          HandleMouseButtonDownEvent_def HandleMouseWheelOrGestureEvent_def
          ShouldProcessInputEvents_def)
  then show ?case using Cons by simp
qed

section \<open>The foreground check\<close>

lemma CheckForeground_closed:
  "CheckForeground None S = (S, [])"
  "CheckForeground (Some f) S =
       (if f = bIsForeground S then (S, [])
        else (S\<lparr>bIsForeground := f,
                InputDetector := (InputDetector S)\<lparr>bIgnoreEvents := \<not> f\<rparr>\<rparr>,
              [OnWindowForegroundChanged f]))"
  by (simp_all add: CheckForeground_def Let_def)

text \<open>
  Over any sequence of polls the broadcasts are exactly the focus transitions, the
  stored focus state is the last one observed to differ, the detector's arrays are
  never touched, and once a transition has happened the detector is suppressed exactly
  when the window is not in the foreground.
\<close>

lemma Polls_transitions:
  "snd (Polls vs S) = map OnWindowForegroundChanged (FocusTransitions (bIsForeground S) vs)
   \<and> bIsForeground (fst (Polls vs S))
       = last (bIsForeground S # FocusTransitions (bIsForeground S) vs)
   \<and> LastInputModeByPlayer (InputDetector (fst (Polls vs S)))
       = LastInputModeByPlayer (InputDetector S)
   \<and> LastButtonPressByPlayer (InputDetector (fst (Polls vs S)))
       = LastButtonPressByPlayer (InputDetector S)
   \<and> bIgnoreEvents (InputDetector (fst (Polls vs S)))
       = (if FocusTransitions (bIsForeground S) vs = [] then bIgnoreEvents (InputDetector S)
          else \<not> bIsForeground (fst (Polls vs S)))"
proof (induction vs arbitrary: S)
  case Nil
  then show ?case by simp
next
  case (Cons v vs)
  show ?case
  proof (cases v)
    case None
    then show ?thesis using Cons.IH [of S] by (simp add: CheckForeground_closed split: prod.splits)
  next
    case (Some f)
    show ?thesis
    proof (cases "f = bIsForeground S")
      case True
      then show ?thesis using Some Cons.IH [of S]
        by (simp add: CheckForeground_closed split: prod.splits)
    next
      case False
      let ?S1 = "S\<lparr>bIsForeground := f,
                InputDetector := (InputDetector S)\<lparr>bIgnoreEvents := \<not> f\<rparr>\<rparr>"
      have step: "CheckForeground v S = (?S1, [OnWindowForegroundChanged f])"
        using Some False by (simp add: CheckForeground_closed)
      show ?thesis
        using Some False Cons.IH [of ?S1] unfolding Polls.simps step
        by (auto split: prod.splits)
    qed
  qed
qed

text \<open>
  The two mechanisms together: once a poll has seen the window leave the foreground,
  every sequence of input events leaves the detector as it is and executes no delegate.
\<close>

lemma background_input_is_ignored:
  assumes "bIsForeground S"
  shows "ProcessEvents Zero es (InputDetector (fst (CheckForeground (Some False) S)))
           = Some (InputDetector (fst (CheckForeground (Some False) S)), [])"
  using assms by (intro ProcessEvents_suppressed) (simp add: CheckForeground_closed)

section \<open>The fresh detector\<close>

lemma new_has_no_Unknown:
  "Unknown \<notin> set (LastInputModeByPlayer FInputModeDetector_new)
   \<and> Unknown \<notin> set (LastButtonPressByPlayer FInputModeDetector_new)"
  by (simp add: FInputModeDetector_new_def Init_def DefaultInputMode_def DefaultButtonInputMode_def)

lemma new_reads_defaults:
  "Num (LastInputModeByPlayer FInputModeDetector_new) = 4
   \<and> Num (LastButtonPressByPlayer FInputModeDetector_new) = 4
   \<and> GetLastInputMode FInputModeDetector_new slot = Mouse
   \<and> GetLastButtonInputMode FInputModeDetector_new slot = Keyboard"
  by (auto simp add: FInputModeDetector_new_def Init_def Num_def GetLastInputMode_def
      GetLastButtonInputMode_def DefaultInputMode_def DefaultButtonInputMode_def)

section \<open>Unknown and the enumerator numbered 0\<close>

text \<open>
  Claim C1 says that no sequence of process calls on the fresh detector makes a getter
  return \<^verbatim>\<open>Unknown\<close>, and that \<^verbatim>\<open>Unknown\<close> is never stored. \<^verbatim>\<open>SetMode\<close> itself never
  assigns \<^verbatim>\<open>Unknown\<close>; the one store that can put it in an array is the fill
  \<^verbatim>\<open>SetNum\<close> gives the slots a growth skips, which is the enumerator numbered 0. The
  declaration of \<^verbatim>\<open>EInputMode\<close> is not among the source files, so the claim is neither
  proved nor refuted here. The two lemmas below are the two cases: with \<^verbatim>\<open>Unknown\<close>
  numbered 0 a key press of player 5 leaves it in slot 4, where the getter returns it;
  with any other enumerator numbered 0 the claim holds.
\<close>

lemma Unknown_numbered_zero_would_be_stored:
  "SetMode Unknown 5 Keyboard True FInputModeDetector_new
     = Some (\<lparr>LastInputModeByPlayer = [Mouse, Mouse, Mouse, Mouse, Unknown, Keyboard],
              LastButtonPressByPlayer = [Keyboard, Keyboard, Keyboard, Keyboard],
              bIgnoreEvents = False\<rparr>,
             [OnInputModeChanged 5 Keyboard])
   \<and> GetLastInputMode
        \<lparr>LastInputModeByPlayer = [Mouse, Mouse, Mouse, Mouse, Unknown, Keyboard],
         LastButtonPressByPlayer = [Keyboard, Keyboard, Keyboard, Keyboard],
         bIgnoreEvents = False\<rparr> 4 = Unknown"
  by (simp add: SetMode_closed StoreAt_def FInputModeDetector_new_def Init_def
      GetLastInputMode_def GetLastButtonInputMode_def Num_def SetNum_def
      DefaultInputMode_def DefaultButtonInputMode_def eval_nat_numeral)

lemma no_Unknown_unless_numbered_zero:
  assumes "Zero \<noteq> Unknown"
  shows "(\<forall>D calls. ProcessEvents Zero es FInputModeDetector_new = Some (D, calls) \<longrightarrow>
            (\<forall>slot. GetLastInputMode D slot \<noteq> Unknown \<and> GetLastButtonInputMode D slot \<noteq> Unknown)
            \<and> Unknown \<notin> set (LastInputModeByPlayer D)
            \<and> Unknown \<notin> set (LastButtonPressByPlayer D))
       \<and> ((\<forall>e \<in> set es. 0 \<le> UserIndexOf e) \<longrightarrow>
            ProcessEvents Zero es FInputModeDetector_new \<noteq> None)"
proof (intro conjI allI impI)
  fix D calls slot
  assume run: "ProcessEvents Zero es FInputModeDetector_new = Some (D, calls)"
  have inv: "Unknown \<notin> set (LastInputModeByPlayer D) \<and> Unknown \<notin> set (LastButtonPressByPlayer D)"
    using ProcessEvents_keeps_Unknown_out [OF assms run] new_has_no_Unknown by simp
  show "Unknown \<notin> set (LastInputModeByPlayer D)" using inv by simp
  show "Unknown \<notin> set (LastButtonPressByPlayer D)" using inv by simp
  show "GetLastInputMode D slot \<noteq> Unknown"
    using inv GetLastInputMode_cases [of D slot] by (auto simp add: DefaultInputMode_def)
  show "GetLastButtonInputMode D slot \<noteq> Unknown"
    using inv GetLastButtonInputMode_cases [of D slot] by (auto simp add: DefaultButtonInputMode_def)
next
  assume "\<forall>e \<in> set es. 0 \<le> UserIndexOf e"
  then show "ProcessEvents Zero es FInputModeDetector_new \<noteq> None"
    by (rule ProcessEvents_total)
qed

section \<open>The claims\<close>

subsection \<open>C2: analog events\<close>

text \<open>
  C2 says an analog event sets the main mode to \<^verbatim>\<open>Gamepad\<close> exactly when the absolute
  value of its magnitude is above 0.2. The handler compares the signed value (the mouse
  move handler next to it takes absolute values). A stick pushed fully to the negative
  side has magnitude 1 in absolute value, and the handler does nothing: on the fresh
  detector the main mode of slot 0 stays \<^verbatim>\<open>Mouse\<close> and no delegate is executed.
  The same stick pushed fully to the positive side sets \<^verbatim>\<open>Gamepad\<close>.
\<close>

theorem C2_negative_analog_value_is_ignored:
  "\<bar>- 1\<bar> > GamepadAxisThreshold
   \<and> HandleAnalogInputEvent Zero 0 (- 1) FInputModeDetector_new = Some (FInputModeDetector_new, [])
   \<and> GetLastInputMode FInputModeDetector_new 0 = Mouse
   \<and> HandleAnalogInputEvent Zero 0 1 FInputModeDetector_new
       = Some (\<lparr>LastInputModeByPlayer = [Gamepad, Mouse, Mouse, Mouse],
                LastButtonPressByPlayer = [Keyboard, Keyboard, Keyboard, Keyboard],
                bIgnoreEvents = False\<rparr>,
               [OnInputModeChanged 0 Gamepad])"
  by (simp add: HandleAnalogInputEvent_def GamepadAxisThreshold_def GetLastInputMode_def
      ShouldProcessInputEvents_def SetMode_closed StoreAt_def
      FInputModeDetector_new_def Init_def Num_def DefaultInputMode_def
      DefaultButtonInputMode_def eval_nat_numeral)

subsection \<open>C3: slots created by growth\<close>

text \<open>
  C3 says both arrays start with length 4 and every slot never written reads as the
  seeded default (\<^verbatim>\<open>Mouse\<close> for the main mode, \<^verbatim>\<open>Keyboard\<close> for the button mode),
  also the slots a growth creates below the written one. The arrays do start with
  length 4, seeded. But \<^verbatim>\<open>SetNum\<close> value-initialises what it adds: after a gamepad
  button of player 5 on the fresh detector, slot 4 of both arrays holds the enumerator
  numbered 0, and both getters return it for slot 4. One value cannot be \<^verbatim>\<open>Mouse\<close>
  for the one and \<^verbatim>\<open>Keyboard\<close> for the other.
\<close>

theorem C3_growth_fills_with_Zero:
  "Num (LastInputModeByPlayer FInputModeDetector_new) = 4
   \<and> Num (LastButtonPressByPlayer FInputModeDetector_new) = 4
   \<and> HandleKeyDownEvent Zero 5
        \<lparr>KeyName = ''Gamepad_FaceButton_Bottom'', IsGamepadKey = True, IsMouseButton = False\<rparr>
        FInputModeDetector_new
      = Some (\<lparr>LastInputModeByPlayer = [Mouse, Mouse, Mouse, Mouse, Zero, Gamepad],
               LastButtonPressByPlayer = [Keyboard, Keyboard, Keyboard, Keyboard, Zero, Gamepad],
               bIgnoreEvents = False\<rparr>,
              [OnButtonInputModeChanged 5 Gamepad, OnInputModeChanged 5 Gamepad])
   \<and> GetLastInputMode
        \<lparr>LastInputModeByPlayer = [Mouse, Mouse, Mouse, Mouse, Zero, Gamepad],
         LastButtonPressByPlayer = [Keyboard, Keyboard, Keyboard, Keyboard, Zero, Gamepad],
         bIgnoreEvents = False\<rparr> 4 = Zero
   \<and> GetLastButtonInputMode
        \<lparr>LastInputModeByPlayer = [Mouse, Mouse, Mouse, Mouse, Zero, Gamepad],
         LastButtonPressByPlayer = [Keyboard, Keyboard, Keyboard, Keyboard, Zero, Gamepad],
         bIgnoreEvents = False\<rparr> 4 = Zero"
  by (simp add: HandleKeyDownEvent_def ProcessKeyOrButton_def
      ShouldProcessInputEvents_def FInputModeDetector_new_def Init_def IsAGamepadButton_def
      SetMode_closed StoreAt_def GetLastInputMode_def GetLastButtonInputMode_def Num_def
      SetNum_def DefaultInputMode_def DefaultButtonInputMode_def eval_nat_numeral
      EKeys_Gamepad_LeftStick_Up_def EKeys_Gamepad_LeftStick_Down_def
      EKeys_Gamepad_LeftStick_Left_def EKeys_Gamepad_LeftStick_Right_def
      EKeys_Gamepad_RightStick_Up_def EKeys_Gamepad_RightStick_Down_def
      EKeys_Gamepad_RightStick_Left_def EKeys_Gamepad_RightStick_Right_def)

subsection \<open>C4: notifications and change\<close>

text \<open>
  C4 as stated ends with: two consecutive mouse moves above the threshold fire exactly
  one main-mode-changed notification. On the fresh detector the main mode of every slot
  already is \<^verbatim>\<open>Mouse\<close>, and two such moves fire none.
\<close>

theorem C4_counterexample:
  "ProcessEvents Mouse [MouseMove 0 (5, 5) (0, 0), MouseMove 0 (10, 10) (5, 5)]
       FInputModeDetector_new
     = Some (FInputModeDetector_new, [])"
  by (simp add: HandleMouseMoveEvent_def ShouldProcessInputEvents_def MouseMoveThreshold_def
      SetMode_def FInputModeDetector_new_def Init_def GetLastInputMode_def Num_def
      DefaultInputMode_def)

text \<open>
  C4, amended. For every process call that returns, on every detector: the delegates
  executed are the button delegate exactly when the button read of the event's slot
  changed, then the main delegate exactly when the main read of that slot changed, each
  once and with the new read; an array differs after the call exactly when the read of
  that slot changed; so an event that classifies to the mode already stored executes
  nothing. A call with a non-negative user index returns. Two consecutive mouse moves
  above the threshold for a slot, on a detector that is not suppressed, execute the main
  delegate exactly once when the slot's main mode was not \<^verbatim>\<open>Mouse\<close> before the first
  move, and not at all when it already was.
\<close>

theorem C4_notification_iff_changed:
  "(\<forall>D' calls. ProcessEvent Zero e D = Some (D', calls) \<longrightarrow>
      calls =
        (if GetLastButtonInputMode D' (UserIndexOf e) \<noteq> GetLastButtonInputMode D (UserIndexOf e)
         then [OnButtonInputModeChanged (UserIndexOf e) (GetLastButtonInputMode D' (UserIndexOf e))]
         else []) @
        (if GetLastInputMode D' (UserIndexOf e) \<noteq> GetLastInputMode D (UserIndexOf e)
         then [OnInputModeChanged (UserIndexOf e) (GetLastInputMode D' (UserIndexOf e))]
         else [])
      \<and> ((LastInputModeByPlayer D' \<noteq> LastInputModeByPlayer D)
             = (GetLastInputMode D' (UserIndexOf e) \<noteq> GetLastInputMode D (UserIndexOf e)))
      \<and> ((LastButtonPressByPlayer D' \<noteq> LastButtonPressByPlayer D)
             = (GetLastButtonInputMode D' (UserIndexOf e) \<noteq> GetLastButtonInputMode D (UserIndexOf e))))
   \<and> (0 \<le> UserIndexOf e \<longrightarrow> ProcessEvent Zero e D \<noteq> None)
   \<and> (0 \<le> i \<and> \<not> bIgnoreEvents D
        \<and> (\<bar>fst p - fst q\<bar> > MouseMoveThreshold \<or> \<bar>snd p - snd q\<bar> > MouseMoveThreshold)
        \<and> (\<bar>fst p' - fst q'\<bar> > MouseMoveThreshold \<or> \<bar>snd p' - snd q'\<bar> > MouseMoveThreshold)
      \<longrightarrow> (\<exists>D'. ProcessEvents Zero [MouseMove i p q, MouseMove i p' q'] D
             = Some (D', if GetLastInputMode D i = Mouse then [] else [OnInputModeChanged i Mouse])))"
  using ProcessEvent_reads [of Zero e D] ProcessEvent_total [of e Zero D]
    two_mouse_moves [of i D p q p' q' Zero]
  by blast

theorem C4_notification_iff_changed_witness:
  "ProcessEvent Mouse (MouseMove 0 (5, 5) (0, 0))
       \<lparr>LastInputModeByPlayer = [Gamepad, Mouse, Mouse, Mouse],
        LastButtonPressByPlayer = [Keyboard, Keyboard, Keyboard, Keyboard],
        bIgnoreEvents = False\<rparr>
     = Some (\<lparr>LastInputModeByPlayer = [Mouse, Mouse, Mouse, Mouse],
              LastButtonPressByPlayer = [Keyboard, Keyboard, Keyboard, Keyboard],
              bIgnoreEvents = False\<rparr>,
             [OnInputModeChanged 0 Mouse])
   \<and> (0::int) \<le> UserIndexOf (MouseMove 0 (5, 5) (0, 0))
   \<and> \<bar>fst (5::real, 5::real) - fst (0::real, 0::real)\<bar> > MouseMoveThreshold
   \<and> \<bar>fst (10::real, 10::real) - fst (5::real, 5::real)\<bar> > MouseMoveThreshold
   \<and> (\<exists>D'. ProcessEvents Mouse [MouseMove 0 (5, 5) (0, 0), MouseMove 0 (10, 10) (5, 5)]
              \<lparr>LastInputModeByPlayer = [Gamepad, Mouse, Mouse, Mouse],
               LastButtonPressByPlayer = [Keyboard, Keyboard, Keyboard, Keyboard],
               bIgnoreEvents = False\<rparr>
            = Some (D', [OnInputModeChanged 0 Mouse]))"
proof -
  let ?D = "\<lparr>LastInputModeByPlayer = [Gamepad, Mouse, Mouse, Mouse],
            LastButtonPressByPlayer = [Keyboard, Keyboard, Keyboard, Keyboard],
            bIgnoreEvents = False\<rparr>"
  have run: "ProcessEvent Mouse (MouseMove 0 (5, 5) (0, 0)) ?D
     = Some (\<lparr>LastInputModeByPlayer = [Mouse, Mouse, Mouse, Mouse],
              LastButtonPressByPlayer = [Keyboard, Keyboard, Keyboard, Keyboard],
              bIgnoreEvents = False\<rparr>,
             [OnInputModeChanged 0 Mouse])"
    by code_simp
  have m1: "\<bar>fst (5::real, 5::real) - fst (0::real, 0::real)\<bar> > MouseMoveThreshold"
    by (simp add: MouseMoveThreshold_def)
  have m2: "\<bar>fst (10::real, 10::real) - fst (5::real, 5::real)\<bar> > MouseMoveThreshold"
    by (simp add: MouseMoveThreshold_def)
  have on: "\<not> bIgnoreEvents ?D" by simp
  have g: "GetLastInputMode ?D 0 = Gamepad" by (simp add: GetLastInputMode_def Num_def)
  have "\<exists>D'. ProcessEvents Mouse [MouseMove 0 (5, 5) (0, 0), MouseMove 0 (10, 10) (5, 5)] ?D
            = Some (D', if GetLastInputMode ?D 0 = Mouse then [] else [OnInputModeChanged 0 Mouse])"
    using C4_notification_iff_changed
      [of Mouse "MouseMove 0 (5, 5) (0, 0)" ?D 0 "(5, 5)" "(0, 0)" "(10, 10)" "(5, 5)"]
      m1 m2 on
    by blast
  then have two: "\<exists>D'. ProcessEvents Mouse [MouseMove 0 (5, 5) (0, 0), MouseMove 0 (10, 10) (5, 5)] ?D
            = Some (D', [OnInputModeChanged 0 Mouse])"
    unfolding g by simp
  show ?thesis using run m1 m2 two by simp
qed

subsection \<open>C5: stick motion reported as a key\<close>

text \<open>
  C5. On a detector that is not suppressed, for every slot (a non-negative user index)
  and every gamepad key, a key-down event sets the main mode of the slot to
  \<^verbatim>\<open>Gamepad\<close>. When the key is one of the eight stick keys
  (\<^verbatim>\<open>Gamepad_LeftStick_Up/Down/Left/Right\<close>, \<^verbatim>\<open>Gamepad_RightStick_Up/Down/Left/Right\<close>)
  the button array is left as it was and the button delegate is not executed: only the
  main delegate is, and only when the main mode changed. For any other gamepad key the
  event is a button event: the button mode of the slot becomes \<^verbatim>\<open>Gamepad\<close> too, and
  each delegate is executed when its mode changed, the button delegate first.
\<close>

theorem C5_stick_motion_is_not_a_button:
  assumes "\<not> bIgnoreEvents D" and "0 \<le> i" and "IsGamepadKey k"
  shows "\<exists>D' calls. HandleKeyDownEvent Zero i k D = Some (D', calls)
     \<and> GetLastInputMode D' i = Gamepad
     \<and> (if KeyName k \<in>
             {KeyName EKeys_Gamepad_LeftStick_Up, KeyName EKeys_Gamepad_LeftStick_Down,
              KeyName EKeys_Gamepad_LeftStick_Left, KeyName EKeys_Gamepad_LeftStick_Right,
              KeyName EKeys_Gamepad_RightStick_Up, KeyName EKeys_Gamepad_RightStick_Down,
              KeyName EKeys_Gamepad_RightStick_Left, KeyName EKeys_Gamepad_RightStick_Right}
        then LastButtonPressByPlayer D' = LastButtonPressByPlayer D
           \<and> calls = (if GetLastInputMode D i = Gamepad then []
                       else [OnInputModeChanged i Gamepad])
        else GetLastButtonInputMode D' i = Gamepad
           \<and> calls = (if GetLastButtonInputMode D i = Gamepad then []
                       else [OnButtonInputModeChanged i Gamepad]) @
                      (if GetLastInputMode D i = Gamepad then []
                       else [OnInputModeChanged i Gamepad]))"
proof -
  let ?b = "IsAGamepadButton k"
  have h: "HandleKeyDownEvent Zero i k D = SetMode Zero i Gamepad ?b D"
    using assms(1,3)
    by (simp add: HandleKeyDownEvent_def ShouldProcessInputEvents_def ProcessKeyOrButton_def)
  obtain D' calls where run: "SetMode Zero i Gamepad ?b D = Some (D', calls)"
    using SetMode_total [OF assms(2)] by blast
  note f = SetMode_fields [OF assms(2) run]
  have main: "GetLastInputMode D' i = Gamepad"
    using GetLastInputMode_after [OF assms(2) run] by simp
  have btn: "GetLastButtonInputMode D' i = (if ?b then Gamepad else GetLastButtonInputMode D i)"
    using GetLastButtonInputMode_after [OF assms(2) run] by simp
  have b: "?b = (KeyName k \<notin>
             {KeyName EKeys_Gamepad_LeftStick_Up, KeyName EKeys_Gamepad_LeftStick_Down,
              KeyName EKeys_Gamepad_LeftStick_Left, KeyName EKeys_Gamepad_LeftStick_Right,
              KeyName EKeys_Gamepad_RightStick_Up, KeyName EKeys_Gamepad_RightStick_Down,
              KeyName EKeys_Gamepad_RightStick_Left, KeyName EKeys_Gamepad_RightStick_Right})"
    using assms(3) by (simp only: IsAGamepadButton_iff simp_thms)
  show ?thesis
    unfolding h run
    using main btn f(1) f(4) unfolding b
    by auto
qed

theorem C5_stick_motion_is_not_a_button_witness:
  "\<not> bIgnoreEvents FInputModeDetector_new \<and> (0::int) \<le> 1
   \<and> IsGamepadKey EKeys_Gamepad_LeftStick_Up
   \<and> (\<exists>D'. HandleKeyDownEvent Mouse 1 EKeys_Gamepad_LeftStick_Up FInputModeDetector_new
              = Some (D', [OnInputModeChanged 1 Gamepad])
          \<and> GetLastInputMode D' 1 = Gamepad
          \<and> LastButtonPressByPlayer D' = LastButtonPressByPlayer FInputModeDetector_new)
   \<and> IsGamepadKey \<lparr>KeyName = ''Gamepad_FaceButton_Bottom'', IsGamepadKey = True,
                    IsMouseButton = False\<rparr>
   \<and> (\<exists>D'. HandleKeyDownEvent Mouse 1
                \<lparr>KeyName = ''Gamepad_FaceButton_Bottom'', IsGamepadKey = True,
                 IsMouseButton = False\<rparr> FInputModeDetector_new
              = Some (D', [OnButtonInputModeChanged 1 Gamepad, OnInputModeChanged 1 Gamepad])
          \<and> GetLastInputMode D' 1 = Gamepad
          \<and> GetLastButtonInputMode D' 1 = Gamepad)"
proof -
  let ?k = "\<lparr>KeyName = ''Gamepad_FaceButton_Bottom'', IsGamepadKey = True,
             IsMouseButton = False\<rparr>"
  have on: "\<not> bIgnoreEvents FInputModeDetector_new"
    by (simp add: FInputModeDetector_new_def)
  have i: "(0::int) \<le> 1" by simp
  have k1: "IsGamepadKey EKeys_Gamepad_LeftStick_Up"
    by (simp add: EKeys_Gamepad_LeftStick_Up_def)
  have k2: "IsGamepadKey ?k" by simp
  have stick: "\<exists>D'. HandleKeyDownEvent Mouse 1 EKeys_Gamepad_LeftStick_Up FInputModeDetector_new
              = Some (D', [OnInputModeChanged 1 Gamepad])
          \<and> GetLastInputMode D' 1 = Gamepad
          \<and> LastButtonPressByPlayer D' = LastButtonPressByPlayer FInputModeDetector_new"
    using C5_stick_motion_is_not_a_button [OF on i k1, of Mouse]
    by (simp add: new_reads_defaults)
  have face: "\<exists>D'. HandleKeyDownEvent Mouse 1 ?k FInputModeDetector_new
              = Some (D', [OnButtonInputModeChanged 1 Gamepad, OnInputModeChanged 1 Gamepad])
          \<and> GetLastInputMode D' 1 = Gamepad
          \<and> GetLastButtonInputMode D' 1 = Gamepad"
    using C5_stick_motion_is_not_a_button [OF on i k2, of Mouse]
    by (simp add: new_reads_defaults
        EKeys_Gamepad_LeftStick_Up_def EKeys_Gamepad_LeftStick_Down_def
        EKeys_Gamepad_LeftStick_Left_def EKeys_Gamepad_LeftStick_Right_def
        EKeys_Gamepad_RightStick_Up_def EKeys_Gamepad_RightStick_Down_def
        EKeys_Gamepad_RightStick_Left_def EKeys_Gamepad_RightStick_Right_def)
  show ?thesis using on i k1 k2 stick face by blast
qed

subsection \<open>C6: suppression\<close>

text \<open>
  C6. While \<^verbatim>\<open>bIgnoreEvents\<close> is set, each of the five handlers, for every user index
  and every payload, returns the detector it was given (so both arrays are exactly as
  they were) and executes no delegate; so does every sequence of process calls.
\<close>

theorem C6_suppressed_handlers_do_nothing:
  assumes "bIgnoreEvents D"
  shows "HandleKeyDownEvent Zero i k D = Some (D, [])
       \<and> HandleAnalogInputEvent Zero i v D = Some (D, [])
       \<and> HandleMouseMoveEvent Zero i p q D = Some (D, [])
       \<and> HandleMouseButtonDownEvent Zero i D = Some (D, [])
       \<and> HandleMouseWheelOrGestureEvent Zero i D = Some (D, [])
       \<and> ProcessEvents Zero es D = Some (D, [])"
  using assms ProcessEvents_suppressed [of D Zero es]
  by (simp add: HandleKeyDownEvent_def HandleAnalogInputEvent_def HandleMouseMoveEvent_def
      HandleMouseButtonDownEvent_def HandleMouseWheelOrGestureEvent_def
      ShouldProcessInputEvents_def)

theorem C6_suppressed_handlers_witness:
  "bIgnoreEvents (FInputModeDetector_new\<lparr>bIgnoreEvents := True\<rparr>)
   \<and> HandleKeyDownEvent Gamepad 7 EKeys_Gamepad_LeftStick_Up
        (FInputModeDetector_new\<lparr>bIgnoreEvents := True\<rparr>)
       = Some (FInputModeDetector_new\<lparr>bIgnoreEvents := True\<rparr>, [])
   \<and> HandleAnalogInputEvent Gamepad 7 1 (FInputModeDetector_new\<lparr>bIgnoreEvents := True\<rparr>)
       = Some (FInputModeDetector_new\<lparr>bIgnoreEvents := True\<rparr>, [])
   \<and> HandleMouseMoveEvent Gamepad 7 (5, 5) (0, 0) (FInputModeDetector_new\<lparr>bIgnoreEvents := True\<rparr>)
       = Some (FInputModeDetector_new\<lparr>bIgnoreEvents := True\<rparr>, [])
   \<and> HandleMouseButtonDownEvent Gamepad 7 (FInputModeDetector_new\<lparr>bIgnoreEvents := True\<rparr>)
       = Some (FInputModeDetector_new\<lparr>bIgnoreEvents := True\<rparr>, [])
   \<and> HandleMouseWheelOrGestureEvent Gamepad 7 (FInputModeDetector_new\<lparr>bIgnoreEvents := True\<rparr>)
       = Some (FInputModeDetector_new\<lparr>bIgnoreEvents := True\<rparr>, [])
   \<and> ProcessEvents Gamepad [MouseButtonDown 0, KeyDown 7 EKeys_Gamepad_LeftStick_Up]
        (FInputModeDetector_new\<lparr>bIgnoreEvents := True\<rparr>)
       = Some (FInputModeDetector_new\<lparr>bIgnoreEvents := True\<rparr>, [])"
proof -
  have h: "bIgnoreEvents (FInputModeDetector_new\<lparr>bIgnoreEvents := True\<rparr>)"
    by simp
  show ?thesis
    using h C6_suppressed_handlers_do_nothing
      [OF h, of Gamepad 7 EKeys_Gamepad_LeftStick_Up 1 "(5, 5)" "(0, 0)"
        "[MouseButtonDown 0, KeyDown 7 EKeys_Gamepad_LeftStick_Up]"]
    by simp
qed

subsection \<open>C7: writing past the end\<close>

text \<open>
  C7 as stated has every mode-set to a slot past the end grow the array to the slot's
  index plus one. A mode-set of the seeded default stores nothing, because the getter
  already answers the default for a slot past the end: a wheel event of player 10 on the
  fresh detector leaves the main array at length 4.
\<close>

theorem C7_counterexample:
  "Num (LastInputModeByPlayer FInputModeDetector_new) = 4
   \<and> SetMode Mouse 10 Mouse False FInputModeDetector_new = Some (FInputModeDetector_new, [])
   \<and> HandleMouseWheelOrGestureEvent Mouse 10 FInputModeDetector_new
       = Some (FInputModeDetector_new, [])
   \<and> Num (LastInputModeByPlayer FInputModeDetector_new) \<noteq> 10 + 1"
  by (simp add: HandleMouseWheelOrGestureEvent_def ShouldProcessInputEvents_def SetMode_def
      FInputModeDetector_new_def Init_def Num_def GetLastInputMode_def DefaultInputMode_def)

text \<open>
  C7, amended. For every slot index \<open>s\<close> at or past the length of the main array, a
  mode-set of a mode \<open>M\<close> that is neither \<^verbatim>\<open>Unknown\<close> nor the seeded default
  \<^verbatim>\<open>Mouse\<close> returns, grows the main array to length \<open>s + 1\<close>, and
  \<^verbatim>\<open>GetLastInputMode(s)\<close> then returns \<open>M\<close>. For every \<open>s\<close> at or past the length of
  the button array, a button mode-set of a mode that is neither \<^verbatim>\<open>Unknown\<close> nor the
  seeded default \<^verbatim>\<open>Keyboard\<close> grows the button array to length \<open>s + 1\<close>, and
  \<^verbatim>\<open>GetLastButtonInputMode(s)\<close> then returns \<open>M\<close>. A mode-set of \<^verbatim>\<open>Unknown\<close> or of
  the array's seeded default to such a slot leaves that array as it was, and the getter
  keeps answering the seeded default.
\<close>

theorem C7_out_of_range_write_grows:
  "(Num (LastInputModeByPlayer D) \<le> s \<and> M \<noteq> Unknown \<and> M \<noteq> DefaultInputMode \<longrightarrow>
      (\<exists>D' calls. SetMode Zero s M b D = Some (D', calls)
         \<and> Num (LastInputModeByPlayer D') = s + 1 \<and> GetLastInputMode D' s = M))
   \<and> (Num (LastButtonPressByPlayer D) \<le> s \<and> M \<noteq> Unknown \<and> M \<noteq> DefaultButtonInputMode \<longrightarrow>
      (\<exists>D' calls. SetMode Zero s M True D = Some (D', calls)
         \<and> Num (LastButtonPressByPlayer D') = s + 1 \<and> GetLastButtonInputMode D' s = M))
   \<and> (Num (LastInputModeByPlayer D) \<le> s \<and> (M = Unknown \<or> M = DefaultInputMode) \<longrightarrow>
      (\<exists>D' calls. SetMode Zero s M b D = Some (D', calls)
         \<and> LastInputModeByPlayer D' = LastInputModeByPlayer D
         \<and> GetLastInputMode D' s = DefaultInputMode))
   \<and> (Num (LastButtonPressByPlayer D) \<le> s \<and> (M = Unknown \<or> M = DefaultButtonInputMode) \<longrightarrow>
      (\<exists>D' calls. SetMode Zero s M b D = Some (D', calls)
         \<and> LastButtonPressByPlayer D' = LastButtonPressByPlayer D
         \<and> GetLastButtonInputMode D' s = DefaultButtonInputMode))"
proof (intro conjI impI)
  assume a: "Num (LastInputModeByPlayer D) \<le> s \<and> M \<noteq> Unknown \<and> M \<noteq> DefaultInputMode"
  then have s0: "0 \<le> s" by (simp add: Num_def)
  obtain D' calls where run: "SetMode Zero s M b D = Some (D', calls)"
    using SetMode_total [OF s0] by blast
  have old: "GetLastInputMode D s = DefaultInputMode"
    using a by (simp add: GetLastInputMode_def)
  have "LastInputModeByPlayer D' = StoreAt Zero s M (LastInputModeByPlayer D)"
    using SetMode_fields(2) [OF s0 run] a old by simp
  then have "Num (LastInputModeByPlayer D') = s + 1"
    using a by (simp add: Num_StoreAt [OF s0])
  moreover have "GetLastInputMode D' s = M"
    using GetLastInputMode_after [OF s0 run] a by simp
  ultimately show "\<exists>D' calls. SetMode Zero s M b D = Some (D', calls)
         \<and> Num (LastInputModeByPlayer D') = s + 1 \<and> GetLastInputMode D' s = M"
    using run by blast
next
  assume a: "Num (LastButtonPressByPlayer D) \<le> s \<and> M \<noteq> Unknown \<and> M \<noteq> DefaultButtonInputMode"
  then have s0: "0 \<le> s" by (simp add: Num_def)
  obtain D' calls where run: "SetMode Zero s M True D = Some (D', calls)"
    using SetMode_total [OF s0] by blast
  have old: "GetLastButtonInputMode D s = DefaultButtonInputMode"
    using a by (simp add: GetLastButtonInputMode_def)
  have "LastButtonPressByPlayer D' = StoreAt Zero s M (LastButtonPressByPlayer D)"
    using SetMode_fields(1) [OF s0 run] a old by simp
  then have "Num (LastButtonPressByPlayer D') = s + 1"
    using a by (simp add: Num_StoreAt [OF s0])
  moreover have "GetLastButtonInputMode D' s = M"
    using GetLastButtonInputMode_after [OF s0 run] a by simp
  ultimately show "\<exists>D' calls. SetMode Zero s M True D = Some (D', calls)
         \<and> Num (LastButtonPressByPlayer D') = s + 1 \<and> GetLastButtonInputMode D' s = M"
    using run by blast
next
  assume a: "Num (LastInputModeByPlayer D) \<le> s \<and> (M = Unknown \<or> M = DefaultInputMode)"
  then have s0: "0 \<le> s" by (simp add: Num_def)
  obtain D' calls where run: "SetMode Zero s M b D = Some (D', calls)"
    using SetMode_total [OF s0] by blast
  have old: "GetLastInputMode D s = DefaultInputMode"
    using a by (simp add: GetLastInputMode_def)
  have same: "LastInputModeByPlayer D' = LastInputModeByPlayer D"
    using SetMode_fields(2) [OF s0 run] a old by auto
  then have "GetLastInputMode D' s = DefaultInputMode"
    using a by (simp add: GetLastInputMode_def)
  then show "\<exists>D' calls. SetMode Zero s M b D = Some (D', calls)
         \<and> LastInputModeByPlayer D' = LastInputModeByPlayer D
         \<and> GetLastInputMode D' s = DefaultInputMode"
    using run same by blast
next
  assume a: "Num (LastButtonPressByPlayer D) \<le> s \<and> (M = Unknown \<or> M = DefaultButtonInputMode)"
  then have s0: "0 \<le> s" by (simp add: Num_def)
  obtain D' calls where run: "SetMode Zero s M b D = Some (D', calls)"
    using SetMode_total [OF s0] by blast
  have old: "GetLastButtonInputMode D s = DefaultButtonInputMode"
    using a by (simp add: GetLastButtonInputMode_def)
  have same: "LastButtonPressByPlayer D' = LastButtonPressByPlayer D"
    using SetMode_fields(1) [OF s0 run] a old by auto
  then have "GetLastButtonInputMode D' s = DefaultButtonInputMode"
    using a by (simp add: GetLastButtonInputMode_def)
  then show "\<exists>D' calls. SetMode Zero s M b D = Some (D', calls)
         \<and> LastButtonPressByPlayer D' = LastButtonPressByPlayer D
         \<and> GetLastButtonInputMode D' s = DefaultButtonInputMode"
    using run same by blast
qed

theorem C7_out_of_range_write_grows_witness:
  "Num (LastInputModeByPlayer FInputModeDetector_new) \<le> 10
   \<and> Num (LastButtonPressByPlayer FInputModeDetector_new) \<le> 10
   \<and> Gamepad \<noteq> Unknown \<and> Gamepad \<noteq> DefaultInputMode \<and> Gamepad \<noteq> DefaultButtonInputMode
   \<and> (\<exists>D' calls. SetMode Mouse 10 Gamepad True FInputModeDetector_new = Some (D', calls)
         \<and> Num (LastInputModeByPlayer D') = 11 \<and> GetLastInputMode D' 10 = Gamepad)
   \<and> (\<exists>D' calls. SetMode Mouse 10 Gamepad True FInputModeDetector_new = Some (D', calls)
         \<and> Num (LastButtonPressByPlayer D') = 11 \<and> GetLastButtonInputMode D' 10 = Gamepad)
   \<and> Mouse = DefaultInputMode
   \<and> (\<exists>D' calls. SetMode Mouse 10 Mouse True FInputModeDetector_new = Some (D', calls)
         \<and> LastInputModeByPlayer D' = LastInputModeByPlayer FInputModeDetector_new
         \<and> GetLastInputMode D' 10 = DefaultInputMode)
   \<and> Keyboard = DefaultButtonInputMode
   \<and> (\<exists>D' calls. SetMode Mouse 10 Keyboard True FInputModeDetector_new = Some (D', calls)
         \<and> LastButtonPressByPlayer D' = LastButtonPressByPlayer FInputModeDetector_new
         \<and> GetLastButtonInputMode D' 10 = DefaultButtonInputMode)"
proof -
  have n: "Num (LastInputModeByPlayer FInputModeDetector_new) \<le> 10"
    "Num (LastButtonPressByPlayer FInputModeDetector_new) \<le> 10"
    by (simp_all add: new_reads_defaults)
  have g: "Gamepad \<noteq> Unknown" "Gamepad \<noteq> DefaultInputMode" "Gamepad \<noteq> DefaultButtonInputMode"
    by (simp_all add: DefaultInputMode_def DefaultButtonInputMode_def)
  have d: "Mouse = DefaultInputMode" "Keyboard = DefaultButtonInputMode"
    by (simp_all add: DefaultInputMode_def DefaultButtonInputMode_def)
  note gp = C7_out_of_range_write_grows [of FInputModeDetector_new 10 Gamepad Mouse True]
  note ms = C7_out_of_range_write_grows [of FInputModeDetector_new 10 Mouse Mouse True]
  note kb = C7_out_of_range_write_grows [of FInputModeDetector_new 10 Keyboard Mouse True]
  have 1: "\<exists>D' calls. SetMode Mouse 10 Gamepad True FInputModeDetector_new = Some (D', calls)
         \<and> Num (LastInputModeByPlayer D') = 11 \<and> GetLastInputMode D' 10 = Gamepad"
    using gp n g by simp
  have 2: "\<exists>D' calls. SetMode Mouse 10 Gamepad True FInputModeDetector_new = Some (D', calls)
         \<and> Num (LastButtonPressByPlayer D') = 11 \<and> GetLastButtonInputMode D' 10 = Gamepad"
    using gp n g by simp
  have 3: "\<exists>D' calls. SetMode Mouse 10 Mouse True FInputModeDetector_new = Some (D', calls)
         \<and> LastInputModeByPlayer D' = LastInputModeByPlayer FInputModeDetector_new
         \<and> GetLastInputMode D' 10 = DefaultInputMode"
    using ms n d by simp
  have 4: "\<exists>D' calls. SetMode Mouse 10 Keyboard True FInputModeDetector_new = Some (D', calls)
         \<and> LastButtonPressByPlayer D' = LastButtonPressByPlayer FInputModeDetector_new
         \<and> GetLastButtonInputMode D' 10 = DefaultButtonInputMode"
    using kb n d by simp
  show ?thesis using n g d 1 2 3 4 by blast
qed

subsection \<open>C8: what Auto becomes\<close>

text \<open>
  C8. When the device preference argument is \<^verbatim>\<open>Auto\<close>, an action lookup hands the
  resolver \<^verbatim>\<open>Gamepad_Keyboard_Mouse_Button\<close> and an axis lookup hands it
  \<^verbatim>\<open>Gamepad_Mouse_Keyboard\<close>, two different preferences. This holds for every action
  name, axis name and player index, whatever the settings, the resolver and the sprite
  table are: the result of the lookup is the sprite of the key of the mapping the
  resolver returns for that preference and the player's two last modes, and null when it
  returns none. That much is decided by the source. The orders these two preferences
  stand for are the spec's: gamepad, keyboard, mouse, last button device for the action
  lookup, and gamepad, mouse, keyboard, last button device for the axis lookup.
\<close>

theorem C8_Auto_preference:
  "GetInputImageSpriteFromAction GetActionMappingByName ResolveAction SpriteFromKey S Name Auto
       PlayerIdx Theme
     = (case ResolveAction (GetActionMappingByName Name) Name Gamepad_Keyboard_Mouse_Button
               (GetLastInputModeUsed S PlayerIdx) (GetLastInputButtonPressed S PlayerIdx) of
          Some m \<Rightarrow> SpriteFromKey (ActionKey m) PlayerIdx Theme
        | None \<Rightarrow> None)
   \<and> PreferenceOrder (ActionDevicePreference Auto)
       = Some [GamepadDevice, KeyboardDevice, MouseDevice, LastButtonDevice]
   \<and> GetInputImageSpriteFromAxis GetAxisMappingByName ResolveAxis SpriteFromKey S Name Auto
       PlayerIdx Theme
     = (case ResolveAxis (GetAxisMappingByName Name) Name Gamepad_Mouse_Keyboard
               (GetLastInputModeUsed S PlayerIdx) (GetLastInputButtonPressed S PlayerIdx) of
          Some m \<Rightarrow> SpriteFromKey (AxisKey m) PlayerIdx Theme
        | None \<Rightarrow> None)
   \<and> PreferenceOrder (AxisDevicePreference Auto)
       = Some [GamepadDevice, MouseDevice, KeyboardDevice, LastButtonDevice]
   \<and> ActionDevicePreference Auto \<noteq> AxisDevicePreference Auto"
  by (simp add: GetInputImageSpriteFromAction_def GetInputImageSpriteFromAxis_def
      ActionDevicePreference_def AxisDevicePreference_def)

subsection \<open>C9: the foreground check\<close>

text \<open>
  C9. A poll that cannot observe the window, or that observes the focus state already
  stored, changes nothing and broadcasts nothing. A poll that observes the other focus
  state \<open>f\<close> stores it, sets the detector's \<^verbatim>\<open>bIgnoreEvents\<close> to the negation of \<open>f\<close>
  (suppressed exactly when not focused) and broadcasts the focus change once, with \<open>f\<close>.
  Polling again with the same observation broadcasts nothing. Over any sequence of polls
  the broadcasts are exactly the focus-state transitions of the observations, each once
  and with the new focus state: the check is edge-triggered.
\<close>

theorem C9_CheckForeground_is_edge_triggered:
  "CheckForeground None S = (S, [])
   \<and> CheckForeground (Some f) S =
       (if f = bIsForeground S then (S, [])
        else (S\<lparr>bIsForeground := f,
                InputDetector := (InputDetector S)\<lparr>bIgnoreEvents := \<not> f\<rparr>\<rparr>,
              [OnWindowForegroundChanged f]))
   \<and> CheckForeground (Some f) (fst (CheckForeground (Some f) S))
       = (fst (CheckForeground (Some f) S), [])
   \<and> snd (Polls vs S) = map OnWindowForegroundChanged (FocusTransitions (bIsForeground S) vs)
   \<and> bIgnoreEvents (InputDetector (fst (Polls vs S)))
       = (if FocusTransitions (bIsForeground S) vs = [] then bIgnoreEvents (InputDetector S)
          else \<not> bIsForeground (fst (Polls vs S)))"
proof -
  have again: "CheckForeground (Some f) (fst (CheckForeground (Some f) S))
       = (fst (CheckForeground (Some f) S), [])"
    by (simp add: CheckForeground_closed)
  show ?thesis
    using again CheckForeground_closed(1) [of S] CheckForeground_closed(2) [of f S]
      Polls_transitions [of vs S]
    by simp
qed

theorem C9_CheckForeground_is_edge_triggered_witness:
  "CheckForeground (Some False) \<lparr>InputDetector = FInputModeDetector_new, bIsForeground = True\<rparr>
     = (\<lparr>InputDetector = FInputModeDetector_new\<lparr>bIgnoreEvents := True\<rparr>,
         bIsForeground = False\<rparr>,
        [OnWindowForegroundChanged False])
   \<and> snd (Polls [Some True, None, Some False, Some False, Some True, None, Some True]
             \<lparr>InputDetector = FInputModeDetector_new, bIsForeground = True\<rparr>)
       = [OnWindowForegroundChanged False, OnWindowForegroundChanged True]"
  using C9_CheckForeground_is_edge_triggered
    [of "\<lparr>InputDetector = FInputModeDetector_new, bIsForeground = True\<rparr>" False
      "[Some True, None, Some False, Some False, Some True, None, Some True]"]
  by simp

subsection \<open>C10: the frame of a mode-set\<close>

text \<open>
  C10. A mode-set for slot \<open>s\<close> that returns leaves every other slot as it was: for
  every \<open>j\<close> other than \<open>s\<close> below the length the main array had before the call,
  \<^verbatim>\<open>GetLastInputMode(j)\<close> returns what it returned before, and likewise
  \<^verbatim>\<open>GetLastButtonInputMode(j)\<close> for every \<open>j\<close> other than \<open>s\<close> below the length the
  button array had. A mode-set that is not a button write leaves the whole button array
  as it was. A mode-set for a non-negative slot returns.
\<close>

theorem C10_SetMode_frame:
  "(0 \<le> s \<longrightarrow> (\<exists>D' calls. SetMode Zero s M b D = Some (D', calls)))
   \<and> (\<forall>D' calls. SetMode Zero s M b D = Some (D', calls) \<longrightarrow>
        (\<forall>j. j \<noteq> s \<and> j < Num (LastInputModeByPlayer D) \<longrightarrow>
               GetLastInputMode D' j = GetLastInputMode D j)
      \<and> (\<forall>j. j \<noteq> s \<and> j < Num (LastButtonPressByPlayer D) \<longrightarrow>
               GetLastButtonInputMode D' j = GetLastButtonInputMode D j)
      \<and> (\<not> b \<longrightarrow> LastButtonPressByPlayer D' = LastButtonPressByPlayer D))"
  using SetMode_total [of s Zero M b D] SetMode_frame [of Zero s M b D]
  by blast

theorem C10_SetMode_frame_witness:
  "(0::int) \<le> 1
   \<and> SetMode Mouse 1 Gamepad False
        \<lparr>LastInputModeByPlayer = [Keyboard, Mouse, Mouse, Mouse],
         LastButtonPressByPlayer = [Keyboard, Keyboard, Mouse, Keyboard],
         bIgnoreEvents = False\<rparr>
      = Some (\<lparr>LastInputModeByPlayer = [Keyboard, Gamepad, Mouse, Mouse],
               LastButtonPressByPlayer = [Keyboard, Keyboard, Mouse, Keyboard],
               bIgnoreEvents = False\<rparr>,
              [OnInputModeChanged 1 Gamepad])
   \<and> (0::int) \<noteq> 1
   \<and> 0 < Num (LastInputModeByPlayer
               \<lparr>LastInputModeByPlayer = [Keyboard, Mouse, Mouse, Mouse],
                LastButtonPressByPlayer = [Keyboard, Keyboard, Mouse, Keyboard],
                bIgnoreEvents = False\<rparr>)
   \<and> GetLastInputMode
        \<lparr>LastInputModeByPlayer = [Keyboard, Gamepad, Mouse, Mouse],
         LastButtonPressByPlayer = [Keyboard, Keyboard, Mouse, Keyboard],
         bIgnoreEvents = False\<rparr> 0
      = GetLastInputMode
        \<lparr>LastInputModeByPlayer = [Keyboard, Mouse, Mouse, Mouse],
         LastButtonPressByPlayer = [Keyboard, Keyboard, Mouse, Keyboard],
         bIgnoreEvents = False\<rparr> 0
   \<and> GetLastButtonInputMode
        \<lparr>LastInputModeByPlayer = [Keyboard, Gamepad, Mouse, Mouse],
         LastButtonPressByPlayer = [Keyboard, Keyboard, Mouse, Keyboard],
         bIgnoreEvents = False\<rparr> 2
      = GetLastButtonInputMode
        \<lparr>LastInputModeByPlayer = [Keyboard, Mouse, Mouse, Mouse],
         LastButtonPressByPlayer = [Keyboard, Keyboard, Mouse, Keyboard],
         bIgnoreEvents = False\<rparr> 2"
proof -
  let ?D = "\<lparr>LastInputModeByPlayer = [Keyboard, Mouse, Mouse, Mouse],
            LastButtonPressByPlayer = [Keyboard, Keyboard, Mouse, Keyboard],
            bIgnoreEvents = False\<rparr>"
  let ?D' = "\<lparr>LastInputModeByPlayer = [Keyboard, Gamepad, Mouse, Mouse],
             LastButtonPressByPlayer = [Keyboard, Keyboard, Mouse, Keyboard],
             bIgnoreEvents = False\<rparr>"
  have run: "SetMode Mouse 1 Gamepad False ?D = Some (?D', [OnInputModeChanged 1 Gamepad])"
    by code_simp
  have n: "0 < Num (LastInputModeByPlayer ?D)" "2 < Num (LastButtonPressByPlayer ?D)"
    by (simp_all add: Num_def)
  note fr = C10_SetMode_frame [of 1 Mouse Gamepad False ?D]
  have a: "GetLastInputMode ?D' 0 = GetLastInputMode ?D 0"
    using fr run n(1) by force
  have b: "GetLastButtonInputMode ?D' 2 = GetLastButtonInputMode ?D 2"
    using fr run n(2) by force
  show ?thesis using run n a b by simp
qed

end
